theory Spec2Isabelle
  imports Main
begin

section \<open>The simulator command group of \<open>cdv/cmds/sim.py\<close>\<close>

text \<open>
  The module declares a click command group \<open>sim\<close> and seven subcommands. Every
  subcommand is a thin function: it checks its options, prints, and hands the work to a
  collaborator imported from elsewhere (\<open>async_config_wizard\<close>, \<open>start_async\<close>,
  \<open>async_stop\<close>, \<open>load_config\<close>, \<open>execute_with_simulator\<close>) or to the
  built-in \<open>input\<close>. The collaborators are parameters of the model (the record
  \<open>env\<close>); each may return a value or raise. A command is a function from its
  arguments to the list of effects it performs, in order, and the way it ends.
\<close>

subsection \<open>Values\<close>

text \<open>
  \<open>Path(root_path) / simulator_name\<close> is kept as the pathlib expression the source
  writes: \<open>Path s\<close> is the constructor call, \<open>PathJoin p s\<close> the operator \<open>p / s\<close>.
\<close>

datatype path = Path string | PathJoin path string

text \<open>The Python values that travel through \<open>ctx.obj\<close> and the collaborators.\<close>

datatype pyval =
    NoneV
  | BoolV bool
  | IntV int
  | StrV string
  | PathV path
  | DictV "(string \<times> pyval) list"

text \<open>An \<open>Optional[int]\<close> and an \<open>Optional[str]\<close> as Python values.\<close>

fun opt_int :: "int option \<Rightarrow> pyval" where
  "opt_int None = NoneV"
| "opt_int (Some n) = IntV n"

text \<open>
  Truth value testing, as \<open>if fingerprint and mnemonic\<close> applies it: \<open>None\<close>, the
  integer zero and the empty string are false.
\<close>

fun truthy_int :: "int option \<Rightarrow> bool" where
  "truthy_int None = False"
| "truthy_int (Some n) = (n \<noteq> 0)"

fun truthy_str :: "string option \<Rightarrow> bool" where
  "truthy_str None = False"
| "truthy_str (Some s) = (s \<noteq> [])"

subsection \<open>Effects and outcomes\<close>

text \<open>The four control actions passed to \<open>execute_with_simulator\<close> as function objects.\<close>

datatype action = print_status | revert_block_height | farm_blocks | set_auto_farm

text \<open>
  The exceptions that can escape a command: \<open>KeyError\<close> from \<open>ctx.obj\<close>,
  \<open>SystemExit\<close> with an integer code (what \<open>sys.exit(code)\<close> raises, in the
  command itself or inside a collaborator), and any other exception, by name.
\<close>

datatype exn = KeyError string | SystemExit int | Error string

text \<open>An f-string: literal text and formatted values, in order.\<close>

datatype fpart = Lit string | Fmt pyval

datatype event =
    Print "fpart list"
  | Input string
  | LoadConfig pyval string
  | AsyncConfigWizard pyval "int option" "string option" "string option" "string option"
      "bool option" bool bool
  | StartAsync pyval "string list" bool
  | AsyncStop pyval pyval "string list" bool
  | ExecuteWithSimulator pyval pyval action bool "pyval list"

text \<open>
  A command returns (\<open>Returned\<close>) or an exception escapes it (\<open>Raised e\<close>);
  leaving through \<open>sys.exit(code)\<close> is \<open>Raised (SystemExit code)\<close>.
\<close>

datatype outcome = Returned | Raised exn

type_synonym result = "event list \<times> outcome"

text \<open>
  The exit status of the process for an integer \<open>SystemExit\<close> code, as CPython on a
  64-bit POSIX system gives it: the code is read as a C \<open>long\<close> and the system keeps
  its low eight bits (256 gives 0, -1 gives 255); a code that does not fit a \<open>long\<close>
  gives 255.
\<close>

definition exit_status :: "int \<Rightarrow> int" where
  "exit_status c =
     (if - 9223372036854775808 \<le> c \<and> c < 9223372036854775808 then c mod 256 else 255)"

text \<open>
  The exit status of the process: zero after a normal return, the narrowed code after a
  \<open>SystemExit\<close>, one after any other uncaught exception.
\<close>

fun exit_code :: "outcome \<Rightarrow> int" where
  "exit_code Returned = 0"
| "exit_code (Raised (SystemExit c)) = exit_status c"
| "exit_code (Raised (KeyError k)) = 1"
| "exit_code (Raised (Error n)) = 1"

text \<open>The collaborators: what each call returns or raises, as a function of its arguments.\<close>

record env =
  input :: "string \<Rightarrow> exn + string"
  load_config :: "pyval \<Rightarrow> string \<Rightarrow> exn + pyval"
  async_config_wizard :: "pyval \<Rightarrow> int option \<Rightarrow> string option \<Rightarrow> string option \<Rightarrow>
      string option \<Rightarrow> bool option \<Rightarrow> bool \<Rightarrow> bool \<Rightarrow> exn + pyval"
  start_async :: "pyval \<Rightarrow> string list \<Rightarrow> bool \<Rightarrow> exn + pyval"
  async_stop :: "pyval \<Rightarrow> pyval \<Rightarrow> string list \<Rightarrow> bool \<Rightarrow> exn + int"
  execute_with_simulator :: "pyval \<Rightarrow> pyval \<Rightarrow> action \<Rightarrow> bool \<Rightarrow> pyval list \<Rightarrow> exn + pyval"

subsection \<open>The context object\<close>

text \<open>\<open>ctx.obj\<close> is a dictionary; a missing key raises \<open>KeyError\<close>.\<close>

type_synonym obj = "string \<rightharpoonup> pyval"

definition getitem :: "obj \<Rightarrow> string \<Rightarrow> exn + pyval" where
  "getitem d k = (case d k of None \<Rightarrow> Inl (KeyError k) | Some v \<Rightarrow> Inr v)"

text \<open>
  \<open>ctx.ensure_object(dict)\<close>: an absent object becomes an empty dictionary, a present
  one is kept.
\<close>

fun ensure_object :: "obj option \<Rightarrow> obj" where
  "ensure_object None = Map.empty"
| "ensure_object (Some d) = d"

text \<open>A click option with a default: the default stands in when the option is not given.\<close>

fun option_default :: "'a \<Rightarrow> 'a option \<Rightarrow> 'a" where
  "option_default d None = d"
| "option_default d (Some v) = v"

subsection \<open>The group callback \<open>sim_cmd\<close>\<close>

definition sim_cmd :: "obj option \<Rightarrow> int option \<Rightarrow> string \<Rightarrow> string \<Rightarrow> obj \<times> result" where
  "sim_cmd ctx_obj rpc_port root_path simulator_name =
     (let d = ensure_object ctx_obj;
          d = d(''root_path'' \<mapsto> PathV (PathJoin (Path root_path) simulator_name));
          d = d(''sim_name'' \<mapsto> StrV simulator_name);
          d = d(''rpc_port'' \<mapsto> opt_int rpc_port)
      in (d, ([], Returned)))"

text \<open>
  The options of the group: \<open>--rpc-port\<close> (default \<open>None\<close>), \<open>--root-path\<close>
  (default \<open>SIMULATOR_ROOT_PATH\<close>, a constant of \<open>cdv.cmds.sim_utils\<close>, taken as a
  parameter) and \<open>--simulator_name\<close> (default \<open>"main"\<close>).
\<close>

definition sim_cmd_options ::
  "string \<Rightarrow> obj option \<Rightarrow> int option \<Rightarrow> string option \<Rightarrow> string option \<Rightarrow> obj \<times> result" where
  "sim_cmd_options SIMULATOR_ROOT_PATH ctx_obj rpc_port root_path simulator_name =
     sim_cmd ctx_obj rpc_port
       (option_default SIMULATOR_ROOT_PATH root_path)
       (option_default ''main'' simulator_name)"

subsection \<open>\<open>create\<close>\<close>

definition create_simulator_config ::
  "env \<Rightarrow> obj \<Rightarrow> int option \<Rightarrow> string option \<Rightarrow> string option \<Rightarrow> string option \<Rightarrow>
     bool option \<Rightarrow> bool \<Rightarrow> bool \<Rightarrow> result" where
  "create_simulator_config e d fingerprint reward_address plot_directory mnemonic auto_farm
       docker_mode no_bitfield =
     (case getitem d ''root_path'' of
        Inl x \<Rightarrow> ([], Raised x)
      | Inr rp \<Rightarrow>
          (let p1 = Print [Lit ''Using this Directory: '', Fmt rp, Lit ''\<newline>'', Lit ''\<newline>'']
           in if truthy_int fingerprint \<and> truthy_str mnemonic then
                ([p1,
                  Print [Lit ''You can't use both a fingerprint and a mnemonic. Please choose one.'',
                         Lit ''\<newline>'']],
                 Returned)
              else
                (let call = AsyncConfigWizard rp fingerprint reward_address plot_directory
                              mnemonic auto_farm docker_mode (\<not> no_bitfield)
                 in case async_config_wizard e rp fingerprint reward_address plot_directory
                           mnemonic auto_farm docker_mode (\<not> no_bitfield) of
                      Inl x \<Rightarrow> ([p1, call], Raised x)
                    | Inr _ \<Rightarrow> ([p1, call], Returned))))"

subsection \<open>\<open>start\<close> and \<open>stop\<close>\<close>

definition start_cmd :: "env \<Rightarrow> obj \<Rightarrow> bool \<Rightarrow> bool \<Rightarrow> result" where
  "start_cmd e d restart wallet =
     (let group = [''simulator''];
          group = (if wallet then group @ [''wallet''] else group)
      in case getitem d ''root_path'' of
           Inl x \<Rightarrow> ([], Raised x)
         | Inr rp \<Rightarrow>
             (case start_async e rp group restart of
                Inl x \<Rightarrow> ([StartAsync rp group restart], Raised x)
              | Inr _ \<Rightarrow> ([StartAsync rp group restart], Returned)))"

definition stop_cmd :: "env \<Rightarrow> obj \<Rightarrow> bool \<Rightarrow> bool \<Rightarrow> result" where
  "stop_cmd e d daemon wallet =
     (case getitem d ''root_path'' of
        Inl x \<Rightarrow> ([], Raised x)
      | Inr rp \<Rightarrow>
          (case load_config e rp ''config.yaml'' of
             Inl x \<Rightarrow> ([LoadConfig rp ''config.yaml''], Raised x)
           | Inr config \<Rightarrow>
               (let group = [''simulator''];
                    group = (if wallet then group @ [''wallet''] else group)
                in case getitem d ''root_path'' of
                     Inl x \<Rightarrow> ([LoadConfig rp ''config.yaml''], Raised x)
                   | Inr rp2 \<Rightarrow>
                       (case async_stop e rp2 config group daemon of
                          Inl x \<Rightarrow>
                            ([LoadConfig rp ''config.yaml'', AsyncStop rp2 config group daemon],
                             Raised x)
                        | Inr status \<Rightarrow>
                            ([LoadConfig rp ''config.yaml'', AsyncStop rp2 config group daemon],
                             Raised (SystemExit status))))))"

subsection \<open>\<open>status\<close>\<close>

definition status_cmd :: "env \<Rightarrow> obj \<Rightarrow> int option \<Rightarrow> bool \<Rightarrow> bool \<Rightarrow> bool \<Rightarrow> bool \<Rightarrow> result" where
  "status_cmd e d fingerprint show_key show_coins include_rewards show_addresses =
     (case getitem d ''rpc_port'' of
        Inl x \<Rightarrow> ([], Raised x)
      | Inr port \<Rightarrow>
          (case getitem d ''root_path'' of
             Inl x \<Rightarrow> ([], Raised x)
           | Inr rp \<Rightarrow>
               (let args = [opt_int fingerprint, BoolV show_key, BoolV show_coins,
                            BoolV include_rewards, BoolV show_addresses];
                    call = ExecuteWithSimulator port rp print_status True args
                in case execute_with_simulator e port rp print_status True args of
                     Inl x \<Rightarrow> ([call], Raised x)
                   | Inr _ \<Rightarrow> ([call], Returned))))"

subsection \<open>\<open>revert\<close>\<close>

definition input_str :: string where
  "input_str =
     ''Are you sure you want to force delete blocks? This should only ever be used in special circumstances,''
     @ '' and will break all wallets. \<newline>Press 'y' to continue, or any other button to exit: ''"

definition reset_msg :: string where
  "reset_msg =
     ''\<newline>Blocks, '-b' must not be set if all blocks are selected by reset, '-r'. Exiting.\<newline>''"

text \<open>
  The part of \<open>revert_cmd\<close> after the confirmation: the check of \<open>reset\<close> against
  \<open>blocks\<close>, then the call. \<open>pre\<close> holds the effects already performed.
\<close>

definition revert_checked ::
  "env \<Rightarrow> obj \<Rightarrow> event list \<Rightarrow> int \<Rightarrow> int \<Rightarrow> bool \<Rightarrow> bool \<Rightarrow> result" where
  "revert_checked e d pre blocks new_blocks reset force =
     (if reset \<and> blocks \<noteq> 1 then
        (pre @ [Print [Lit reset_msg, Lit ''\<newline>'']], Returned)
      else
        (case getitem d ''rpc_port'' of
           Inl x \<Rightarrow> (pre, Raised x)
         | Inr port \<Rightarrow>
             (case getitem d ''root_path'' of
                Inl x \<Rightarrow> (pre, Raised x)
              | Inr rp \<Rightarrow>
                  (let args = [IntV blocks, IntV new_blocks, BoolV reset, BoolV force];
                       call = ExecuteWithSimulator port rp revert_block_height True args
                   in case execute_with_simulator e port rp revert_block_height True args of
                        Inl x \<Rightarrow> (pre @ [call], Raised x)
                      | Inr _ \<Rightarrow> (pre @ [call], Returned)))))"

definition revert_cmd :: "env \<Rightarrow> obj \<Rightarrow> int \<Rightarrow> int \<Rightarrow> bool \<Rightarrow> bool \<Rightarrow> bool \<Rightarrow> result" where
  "revert_cmd e d blocks new_blocks reset force disable_prompt =
     (if force \<and> \<not> disable_prompt then
        (case input e input_str of
           Inl x \<Rightarrow> ([Input input_str], Raised x)
         | Inr answer \<Rightarrow>
             if answer \<noteq> ''y'' then ([Input input_str], Returned)
             else revert_checked e d [Input input_str] blocks new_blocks reset force)
      else revert_checked e d [] blocks new_blocks reset force)"

text \<open>The options of \<open>revert\<close>: \<open>--blocks\<close> and \<open>--new_blocks\<close> default to 1; the rest are flags.\<close>

definition revert_cmd_options ::
  "env \<Rightarrow> obj \<Rightarrow> int option \<Rightarrow> int option \<Rightarrow> bool \<Rightarrow> bool \<Rightarrow> bool \<Rightarrow> result" where
  "revert_cmd_options e d blocks new_blocks reset force disable_prompt =
     revert_cmd e d (option_default 1 blocks) (option_default 1 new_blocks) reset force
       disable_prompt"

subsection \<open>\<open>farm\<close> and \<open>autofarm\<close>\<close>

definition farm_cmd :: "env \<Rightarrow> obj \<Rightarrow> int \<Rightarrow> bool \<Rightarrow> string \<Rightarrow> result" where
  "farm_cmd e d blocks non_transaction target_address =
     (case getitem d ''rpc_port'' of
        Inl x \<Rightarrow> ([], Raised x)
      | Inr port \<Rightarrow>
          (case getitem d ''root_path'' of
             Inl x \<Rightarrow> ([], Raised x)
           | Inr rp \<Rightarrow>
               (let args = [IntV blocks, BoolV (\<not> non_transaction), StrV target_address];
                    call = ExecuteWithSimulator port rp farm_blocks True args
                in case execute_with_simulator e port rp farm_blocks True args of
                     Inl x \<Rightarrow> ([call], Raised x)
                   | Inr _ \<Rightarrow> ([call], Returned))))"

text \<open>
  The options of \<open>farm\<close>: \<open>--blocks\<close> is an integer with default 1 (click's \<open>int\<close>
  type accepts every integer), \<open>--non-transaction\<close> is a flag, \<open>--target-address\<close>
  defaults to the empty string.
\<close>

definition farm_cmd_options ::
  "env \<Rightarrow> obj \<Rightarrow> int option \<Rightarrow> bool \<Rightarrow> string option \<Rightarrow> result" where
  "farm_cmd_options e d blocks non_transaction target_address =
     farm_cmd e d (option_default 1 blocks) non_transaction (option_default [] target_address)"

definition autofarm_cmd :: "env \<Rightarrow> obj \<Rightarrow> string \<Rightarrow> result" where
  "autofarm_cmd e d set_autofarm =
     (let autofarm = (set_autofarm = ''on'')
      in case getitem d ''rpc_port'' of
           Inl x \<Rightarrow> ([], Raised x)
         | Inr port \<Rightarrow>
             (case getitem d ''root_path'' of
                Inl x \<Rightarrow> ([], Raised x)
              | Inr rp \<Rightarrow>
                  (let call = ExecuteWithSimulator port rp set_auto_farm True [BoolV autofarm]
                   in case execute_with_simulator e port rp set_auto_farm True [BoolV autofarm] of
                        Inl x \<Rightarrow> ([call], Raised x)
                      | Inr _ \<Rightarrow> ([call], Returned))))"

subsection \<open>Reading a trace\<close>

text \<open>The calls that reach a collaborator, by kind.\<close>

fun is_wizard_call :: "event \<Rightarrow> bool" where
  "is_wizard_call (AsyncConfigWizard _ _ _ _ _ _ _ _) = True"
| "is_wizard_call _ = False"

fun is_rpc_call :: "event \<Rightarrow> bool" where
  "is_rpc_call (ExecuteWithSimulator _ _ _ _ _) = True"
| "is_rpc_call _ = False"

fun is_print :: "event \<Rightarrow> bool" where
  "is_print (Print _) = True"
| "is_print _ = False"

text \<open>The service group an event hands to the lifecycle manager, if it is such a call.\<close>

fun group_of :: "event \<Rightarrow> string list option" where
  "group_of (StartAsync _ g _) = Some g"
| "group_of (AsyncStop _ _ g _) = Some g"
| "group_of _ = None"

text \<open>The arguments an event forwards to a control action, if it is such a call.\<close>

fun action_args :: "event \<Rightarrow> (action \<times> pyval list) option" where
  "action_args (ExecuteWithSimulator _ _ a _ args) = Some (a, args)"
| "action_args _ = None"

text \<open>
  A fixed set of collaborators for the concrete runs below: the user answers \<open>a\<close> at the
  prompt, the stop operation returns \<open>s\<close>, every other call returns normally.
\<close>

definition env_of :: "string \<Rightarrow> int \<Rightarrow> env" where
  "env_of a s =
     \<lparr> input = (\<lambda>_. Inr a),
       load_config = (\<lambda>_ _. Inr (DictV [])),
       async_config_wizard = (\<lambda>_ _ _ _ _ _ _ _. Inr NoneV),
       start_async = (\<lambda>_ _ _. Inr NoneV),
       async_stop = (\<lambda>_ _ _ _. Inr s),
       execute_with_simulator = (\<lambda>_ _ _ _ _. Inr NoneV) \<rparr>"

text \<open>The context object the group callback leaves for the simulator \<open>main\<close> under \<open>/sim\<close>.\<close>

definition main_obj :: obj where
  "main_obj = fst (sim_cmd None None ''/sim'' ''main'')"

section \<open>Properties\<close>

subsection \<open>Auxiliary facts\<close>

lemma getitem_Some: "d k = Some v \<Longrightarrow> getitem d k = Inr v"
  by (simp add: getitem_def)

lemma main_obj_root_path:
  "main_obj ''root_path'' = Some (PathV (PathJoin (Path ''/sim'') ''main''))"
  by (simp add: main_obj_def sim_cmd_def)

lemma main_obj_rpc_port: "main_obj ''rpc_port'' = Some NoneV"
  by (simp add: main_obj_def sim_cmd_def)

lemma getitem_main_obj:
  "getitem main_obj ''root_path'' = Inr (PathV (PathJoin (Path ''/sim'') ''main''))"
  "getitem main_obj ''rpc_port'' = Inr NoneV"
  by (simp_all add: getitem_def main_obj_root_path main_obj_rpc_port)

lemma env_of_simps:
  "input (env_of a s) p = Inr a"
  "load_config (env_of a s) rp f = Inr (DictV [])"
  "async_config_wizard (env_of a s) rp fp ra pd mn af dm bf = Inr NoneV"
  "start_async (env_of a s) rp g r = Inr NoneV"
  "async_stop (env_of a s) rp c g dm = Inr s"
  "execute_with_simulator (env_of a s) port rp act b args = Inr NoneV"
  by (simp_all add: env_of_def)

text \<open>With a fingerprint other than zero and a mnemonic other than the empty string,
  \<open>create\<close> prints its two messages and returns; the wizard is not called.\<close>

lemma create_rejects_truthy:
  assumes "d ''root_path'' = Some rp" and "fingerprint = Some n" and "n \<noteq> 0"
    and "mnemonic = Some m" and "m \<noteq> []"
  shows "create_simulator_config e d fingerprint ra pd mnemonic af dm nb =
     ([Print [Lit ''Using this Directory: '', Fmt rp, Lit ''\<newline>'', Lit ''\<newline>''],
       Print [Lit ''You can't use both a fingerprint and a mnemonic. Please choose one.'',
              Lit ''\<newline>'']],
      Returned)"
  using assms by (simp add: create_simulator_config_def getitem_Some)

lemma revert_declined:
  "input e input_str = Inr answer \<Longrightarrow> answer \<noteq> ''y'' \<Longrightarrow>
   revert_cmd e d blocks new_blocks reset True False = ([Input input_str], Returned)"
  by (simp add: revert_cmd_def)

lemma revert_checked_rejects:
  "reset \<Longrightarrow> blocks \<noteq> 1 \<Longrightarrow>
   revert_checked e d pre blocks new_blocks reset force =
     (pre @ [Print [Lit reset_msg, Lit ''\<newline>'']], Returned)"
  by (simp add: revert_checked_def)

lemma revert_no_rpc:
  assumes "reset" and "blocks \<noteq> 1"
  shows "\<not> list_ex is_rpc_call
           (fst (revert_cmd e d blocks new_blocks reset force disable_prompt))"
  using assms by (simp add: revert_cmd_def revert_checked_rejects split: sum.splits)

lemma stop_cmd_ok:
  assumes "d ''root_path'' = Some rp"
    and "load_config e rp ''config.yaml'' = Inr config"
    and "async_stop e rp config (''simulator'' # (if wallet then [''wallet''] else [])) daemon
           = Inr status"
  shows "stop_cmd e d daemon wallet =
     ([LoadConfig rp ''config.yaml'',
       AsyncStop rp config (''simulator'' # (if wallet then [''wallet''] else [])) daemon],
      Raised (SystemExit status))"
  using assms by (cases wallet) (simp_all add: stop_cmd_def getitem_Some)


lemma start_cmd_groups:
  "ev \<in> set (fst (start_cmd e d restart wallet)) \<Longrightarrow> group_of ev = Some g \<Longrightarrow>
   g = ''simulator'' # (if wallet then [''wallet''] else [])"
  by (auto simp: start_cmd_def Let_def split: sum.splits if_splits)

lemma stop_cmd_groups:
  "ev \<in> set (fst (stop_cmd e d daemon wallet)) \<Longrightarrow> group_of ev = Some g \<Longrightarrow>
   g = ''simulator'' # (if wallet then [''wallet''] else [])"
  by (auto simp: stop_cmd_def Let_def split: sum.splits if_splits)

lemma farm_cmd_args:
  "ev \<in> set (fst (farm_cmd e d blocks nt ta)) \<Longrightarrow> action_args ev = Some (a, args) \<Longrightarrow>
   a = farm_blocks \<and> args = [IntV blocks, BoolV (\<not> nt), StrV ta]"
  by (auto simp: farm_cmd_def Let_def split: sum.splits)

lemma farm_cmd_ok:
  assumes "d ''rpc_port'' = Some port" and "d ''root_path'' = Some rp"
    and "execute_with_simulator e port rp farm_blocks True
           [IntV blocks, BoolV (\<not> nt), StrV ta] = Inr r"
  shows "farm_cmd e d blocks nt ta =
     ([ExecuteWithSimulator port rp farm_blocks True [IntV blocks, BoolV (\<not> nt), StrV ta]],
      Returned)"
  using assms by (simp add: farm_cmd_def getitem_Some)

lemma farm_main:
  "farm_cmd (env_of a s) main_obj blocks nt ta =
     ([ExecuteWithSimulator NoneV (PathV (PathJoin (Path ''/sim'') ''main'')) farm_blocks True
         [IntV blocks, BoolV (\<not> nt), StrV ta]],
      Returned)"
  by (simp add: farm_cmd_def getitem_main_obj env_of_simps)

lemma revert_checked_prefix:
  "take (length pre) (fst (revert_checked e d pre blocks new_blocks reset force)) = pre"
  by (simp add: revert_checked_def Let_def split: sum.splits)

lemma revert_prompt_first:
  "take (Suc 0) (fst (revert_cmd e d blocks new_blocks reset True False)) = [Input input_str]"
  using revert_checked_prefix [of "[Input input_str]" e d blocks new_blocks reset True]
  by (simp add: revert_cmd_def split: sum.splits)

subsection \<open>\<open>create\<close>: fingerprint and mnemonic together\<close>

text \<open>
  C1. When both a fingerprint and a mnemonic are given, \<open>create\<close> should print its
  message and return without calling the wizard. The test in the source is a truth value
  test, so a fingerprint of zero counts as not given: run with \<open>-f 0\<close> and a mnemonic,
  the command prints only the directory line and calls \<open>async_config_wizard\<close> with both
  values.
\<close>

theorem create_zero_fingerprint_calls_wizard:
  "create_simulator_config (env_of ''y'' 0) main_obj (Some 0) None None (Some ''abandon'')
       None False False =
     ([Print [Lit ''Using this Directory: '', Fmt (PathV (PathJoin (Path ''/sim'') ''main'')),
              Lit ''\<newline>'', Lit ''\<newline>''],
       AsyncConfigWizard (PathV (PathJoin (Path ''/sim'') ''main'')) (Some 0) None None
         (Some ''abandon'') None False True],
      Returned)
   \<and> list_ex is_wizard_call
         (fst (create_simulator_config (env_of ''y'' 0) main_obj (Some 0) None None
                 (Some ''abandon'') None False False))"
  by (simp add: create_simulator_config_def getitem_main_obj env_of_simps)

subsection \<open>\<open>revert\<close>: reset against blocks, and the confirmation\<close>

text \<open>
  C2, as the code has it. With \<open>reset\<close> set and \<open>blocks\<close> other than 1, \<open>revert\<close>
  never calls \<open>execute_with_simulator\<close>. When no confirmation is asked for (not
  \<open>force\<close>, or \<open>disable_prompt\<close>), or the confirmation is answered \<open>y\<close>, it prints
  the rejection message and returns.
\<close>

theorem revert_reset_with_blocks_rejected:
  assumes "reset" and "blocks \<noteq> 1"
  shows "\<not> list_ex is_rpc_call
            (fst (revert_cmd e d blocks new_blocks reset force disable_prompt))
       \<and> (\<not> (force \<and> \<not> disable_prompt) \<longrightarrow>
            revert_cmd e d blocks new_blocks reset force disable_prompt =
              ([Print [Lit reset_msg, Lit ''\<newline>'']], Returned))
       \<and> (force \<and> \<not> disable_prompt \<and> input e input_str = Inr ''y'' \<longrightarrow>
            revert_cmd e d blocks new_blocks reset force disable_prompt =
              ([Input input_str, Print [Lit reset_msg, Lit ''\<newline>'']], Returned))"
proof (intro conjI impI)
  show "\<not> list_ex is_rpc_call
            (fst (revert_cmd e d blocks new_blocks reset force disable_prompt))"
    using assms by (rule revert_no_rpc)
next
  assume "\<not> (force \<and> \<not> disable_prompt)"
  then show "revert_cmd e d blocks new_blocks reset force disable_prompt =
      ([Print [Lit reset_msg, Lit ''\<newline>'']], Returned)"
    using assms by (auto simp: revert_cmd_def revert_checked_rejects)
next
  assume "force \<and> \<not> disable_prompt \<and> input e input_str = Inr ''y''"
  then show "revert_cmd e d blocks new_blocks reset force disable_prompt =
      ([Input input_str, Print [Lit reset_msg, Lit ''\<newline>'']], Returned)"
    using assms by (simp add: revert_cmd_def revert_checked_rejects)
qed

theorem revert_reset_with_blocks_rejected_witness:
  "True \<and> (5::int) \<noteq> 1
   \<and> \<not> list_ex is_rpc_call (fst (revert_cmd (env_of ''y'' 0) main_obj 5 1 True True False))
   \<and> revert_cmd (env_of ''y'' 0) main_obj 5 1 True False False =
       ([Print [Lit reset_msg, Lit ''\<newline>'']], Returned)
   \<and> revert_cmd (env_of ''y'' 0) main_obj 5 1 True True False =
       ([Input input_str, Print [Lit reset_msg, Lit ''\<newline>'']], Returned)"
  using revert_reset_with_blocks_rejected [of True 5 "env_of ''y'' 0" main_obj 1 True False]
    revert_reset_with_blocks_rejected [of True 5 "env_of ''y'' 0" main_obj 1 False False]
  by (simp add: env_of_simps)

text \<open>
  C2 as written fails: with \<open>force\<close> set, no \<open>disable_prompt\<close> and the answer
  \<open>n\<close>, the command run with \<open>reset\<close> and \<open>blocks = 2\<close> returns after the prompt
  and prints nothing.
\<close>

theorem revert_reset_with_blocks_silent:
  "True \<and> (2::int) \<noteq> 1
   \<and> \<not> list_ex is_print (fst (revert_cmd (env_of ''n'' 0) main_obj 2 1 True True False))"
  by (simp add: revert_cmd_def env_of_simps)

text \<open>
  C3. With \<open>force\<close> set and \<open>disable_prompt\<close> not set, an answer other than \<open>y\<close>
  ends \<open>revert\<close> at once: the prompt is its only effect, so there is no call to
  \<open>execute_with_simulator\<close> and no message, and the command returns normally.
\<close>

theorem revert_declined_is_silent:
  assumes "input e input_str = Inr answer" and "answer \<noteq> ''y''"
  shows "revert_cmd e d blocks new_blocks reset True False = ([Input input_str], Returned)
       \<and> \<not> list_ex is_rpc_call (fst (revert_cmd e d blocks new_blocks reset True False))
       \<and> \<not> list_ex is_print (fst (revert_cmd e d blocks new_blocks reset True False))
       \<and> snd (revert_cmd e d blocks new_blocks reset True False) = Returned"
  by (simp add: revert_declined [OF assms])

theorem revert_declined_is_silent_witness:
  "input (env_of ''no'' 0) input_str = Inr ''no'' \<and> ''no'' \<noteq> ''y''
   \<and> revert_cmd (env_of ''no'' 0) main_obj 3 1 False True False = ([Input input_str], Returned)
   \<and> \<not> list_ex is_rpc_call (fst (revert_cmd (env_of ''no'' 0) main_obj 3 1 False True False))
   \<and> \<not> list_ex is_print (fst (revert_cmd (env_of ''no'' 0) main_obj 3 1 False True False))
   \<and> snd (revert_cmd (env_of ''no'' 0) main_obj 3 1 False True False) = Returned"
  using revert_declined_is_silent [of "env_of ''no'' 0" "''no''" main_obj 3 1 False]
  by (simp add: env_of_simps)

subsection \<open>\<open>start\<close> and \<open>stop\<close>: exit status and service group\<close>

text \<open>
  C4, as the code has it. When \<open>stop\<close> runs and \<open>async_stop\<close> returns a status,
  the command leaves through \<open>sys.exit\<close> with that status. The exit code of the
  process is the status as the system narrows it; it is the status itself whenever the
  status lies between 0 and 255, and there a status other than zero gives an exit code
  other than zero.
\<close>

theorem stop_exits_with_manager_status:
  assumes "d ''root_path'' = Some rp"
    and "load_config e rp ''config.yaml'' = Inr config"
    and "async_stop e rp config (''simulator'' # (if wallet then [''wallet''] else [])) daemon
           = Inr status"
  shows "snd (stop_cmd e d daemon wallet) = Raised (SystemExit status)
       \<and> exit_code (snd (stop_cmd e d daemon wallet)) = exit_status status
       \<and> (0 \<le> status \<and> status < 256 \<longrightarrow>
            exit_code (snd (stop_cmd e d daemon wallet)) = status
            \<and> (status \<noteq> 0 \<longrightarrow> exit_code (snd (stop_cmd e d daemon wallet)) \<noteq> 0))"
  using stop_cmd_ok [of d rp e config wallet daemon status] assms
  by (simp add: exit_status_def)

theorem stop_exits_with_manager_status_witness:
  "main_obj ''root_path'' = Some (PathV (PathJoin (Path ''/sim'') ''main''))
   \<and> load_config (env_of ''y'' 1) (PathV (PathJoin (Path ''/sim'') ''main'')) ''config.yaml''
       = Inr (DictV [])
   \<and> async_stop (env_of ''y'' 1) (PathV (PathJoin (Path ''/sim'') ''main'')) (DictV [])
       [''simulator'', ''wallet''] False = Inr 1
   \<and> (0::int) \<le> 1 \<and> (1::int) < 256 \<and> (1::int) \<noteq> 0
   \<and> snd (stop_cmd (env_of ''y'' 1) main_obj False True) = Raised (SystemExit 1)
   \<and> exit_code (snd (stop_cmd (env_of ''y'' 1) main_obj False True)) = 1
   \<and> exit_code (snd (stop_cmd (env_of ''y'' 1) main_obj False True)) \<noteq> 0"
  using stop_exits_with_manager_status [of main_obj "PathV (PathJoin (Path ''/sim'') ''main'')"
      "env_of ''y'' 1" "DictV []" True False 1]
  by (simp add: env_of_simps main_obj_root_path)

text \<open>
  C4 as written fails: when \<open>async_stop\<close> returns the status 256, \<open>stop\<close> calls
  \<open>sys.exit(256)\<close> and the exit code of the process is 0, which is neither the status
  nor other than zero.
\<close>

theorem stop_status_256_exits_zero:
  "async_stop (env_of ''y'' 256) (PathV (PathJoin (Path ''/sim'') ''main'')) (DictV [])
       [''simulator''] False = Inr 256
   \<and> snd (stop_cmd (env_of ''y'' 256) main_obj False False) = Raised (SystemExit 256)
   \<and> (256::int) \<noteq> 0
   \<and> exit_code (snd (stop_cmd (env_of ''y'' 256) main_obj False False)) = 0
   \<and> exit_code (snd (stop_cmd (env_of ''y'' 256) main_obj False False)) \<noteq> 256"
  by (simp add: stop_cmd_def getitem_main_obj env_of_simps exit_status_def)

text \<open>
  C5. Every service group that \<open>start\<close> or \<open>stop\<close> hands to the lifecycle manager is
  \<open>simulator\<close> alone when the wallet flag is absent and \<open>simulator\<close> followed by
  \<open>wallet\<close> when it is given: \<open>simulator\<close> comes first, \<open>wallet\<close> is a member
  exactly when the flag is given, and there is no other name.
\<close>

theorem service_group_contents:
  assumes "ev \<in> set (fst (start_cmd e d restart wallet)) \<union> set (fst (stop_cmd e d daemon wallet))"
    and "group_of ev = Some g"
  shows "g = (if wallet then [''simulator'', ''wallet''] else [''simulator''])
       \<and> hd g = ''simulator''
       \<and> (''wallet'' \<in> set g \<longleftrightarrow> wallet)
       \<and> set g \<subseteq> {''simulator'', ''wallet''}"
proof -
  have "g = ''simulator'' # (if wallet then [''wallet''] else [])"
    using assms start_cmd_groups stop_cmd_groups by blast
  then show ?thesis by simp
qed

theorem service_group_contents_witness:
  "StartAsync (PathV (PathJoin (Path ''/sim'') ''main'')) [''simulator'', ''wallet''] False
     \<in> set (fst (start_cmd (env_of ''y'' 0) main_obj False True))
         \<union> set (fst (stop_cmd (env_of ''y'' 0) main_obj False True))
   \<and> AsyncStop (PathV (PathJoin (Path ''/sim'') ''main'')) (DictV []) [''simulator''] True
     \<in> set (fst (start_cmd (env_of ''y'' 0) main_obj False False))
         \<union> set (fst (stop_cmd (env_of ''y'' 0) main_obj True False))
   \<and> hd [''simulator'', ''wallet''] = ''simulator''
   \<and> ''wallet'' \<in> set [''simulator'', ''wallet'']
   \<and> ''wallet'' \<notin> set [''simulator'']"
  using service_group_contents [of
      "StartAsync (PathV (PathJoin (Path ''/sim'') ''main'')) [''simulator'', ''wallet''] False"
      "env_of ''y'' 0" main_obj False True False "[''simulator'', ''wallet'']"]
    service_group_contents [of
      "AsyncStop (PathV (PathJoin (Path ''/sim'') ''main'')) (DictV []) [''simulator''] True"
      "env_of ''y'' 0" main_obj False False True "[''simulator'']"]
  by (simp add: start_cmd_def stop_cmd_def getitem_main_obj env_of_simps)



subsection \<open>\<open>farm\<close>: the forwarded arguments\<close>

text \<open>
  C6, as the code has it. The block count that \<open>farm\<close> forwards to \<open>farm_blocks\<close> is
  the value of the \<open>blocks\<close> option as given, of either sign, and 1 when the option is
  not supplied; nothing checks that it is positive.
\<close>

theorem farm_block_count_forwarded:
  assumes "ev \<in> set (fst (farm_cmd_options e d blocks nt ta))"
    and "action_args ev = Some (a, args)"
  shows "a = farm_blocks
       \<and> args ! 0 = IntV (case blocks of None \<Rightarrow> 1 | Some b \<Rightarrow> b)
       \<and> (blocks = None \<longrightarrow> args ! 0 = IntV 1)"
  using farm_cmd_args [OF assms [unfolded farm_cmd_options_def]]
  by (cases blocks) simp_all

theorem farm_block_count_forwarded_witness:
  "ExecuteWithSimulator NoneV (PathV (PathJoin (Path ''/sim'') ''main'')) farm_blocks True
       [IntV 1, BoolV True, StrV []]
     \<in> set (fst (farm_cmd_options (env_of ''y'' 0) main_obj None False None))
   \<and> [IntV 1, BoolV True, StrV []] ! 0 = IntV 1"
  using farm_block_count_forwarded [of
      "ExecuteWithSimulator NoneV (PathV (PathJoin (Path ''/sim'') ''main'')) farm_blocks True
         [IntV 1, BoolV True, StrV []]"
      "env_of ''y'' 0" main_obj None False None farm_blocks "[IntV 1, BoolV True, StrV []]"]
  by (simp add: farm_cmd_options_def farm_main)

text \<open>
  C6 as written fails: \<open>farm -b 0\<close> forwards the block count 0, which is not
  positive.
\<close>

theorem farm_forwards_zero_blocks:
  "fst (farm_cmd_options (env_of ''y'' 0) main_obj (Some 0) False None) =
     [ExecuteWithSimulator NoneV (PathV (PathJoin (Path ''/sim'') ''main'')) farm_blocks True
        [IntV 0, BoolV True, StrV []]]
   \<and> \<not> (0::int) < 0"
  by (simp add: farm_cmd_options_def farm_main)

text \<open>
  C7. \<open>farm\<close> forwards \<open>as_transaction_block\<close> as the negation of the
  \<open>non_transaction\<close> flag: true when the flag is absent, false when it is given.
\<close>

theorem farm_transaction_flag_negated:
  assumes "ev \<in> set (fst (farm_cmd_options e d blocks non_transaction ta))"
    and "action_args ev = Some (a, args)"
  shows "args ! Suc 0 = BoolV (\<not> non_transaction)
       \<and> (\<not> non_transaction \<longrightarrow> args ! Suc 0 = BoolV True)
       \<and> (non_transaction \<longrightarrow> args ! Suc 0 = BoolV False)"
  using farm_cmd_args [OF assms [unfolded farm_cmd_options_def]] by simp

theorem farm_transaction_flag_negated_witness:
  "ExecuteWithSimulator NoneV (PathV (PathJoin (Path ''/sim'') ''main'')) farm_blocks True
       [IntV 3, BoolV False, StrV []]
     \<in> set (fst (farm_cmd_options (env_of ''y'' 0) main_obj (Some 3) True None))
   \<and> ExecuteWithSimulator NoneV (PathV (PathJoin (Path ''/sim'') ''main'')) farm_blocks True
       [IntV 3, BoolV True, StrV []]
     \<in> set (fst (farm_cmd_options (env_of ''y'' 0) main_obj (Some 3) False None))
   \<and> [IntV 3, BoolV False, StrV []] ! Suc 0 = BoolV False
   \<and> [IntV 3, BoolV True, StrV []] ! Suc 0 = BoolV True"
  using farm_transaction_flag_negated [of
      "ExecuteWithSimulator NoneV (PathV (PathJoin (Path ''/sim'') ''main'')) farm_blocks True
         [IntV 3, BoolV False, StrV []]"
      "env_of ''y'' 0" main_obj "Some 3" True None farm_blocks "[IntV 3, BoolV False, StrV []]"]
    farm_transaction_flag_negated [of
      "ExecuteWithSimulator NoneV (PathV (PathJoin (Path ''/sim'') ''main'')) farm_blocks True
         [IntV 3, BoolV True, StrV []]"
      "env_of ''y'' 0" main_obj "Some 3" False None farm_blocks "[IntV 3, BoolV True, StrV []]"]
  by (simp add: farm_cmd_options_def farm_main)

subsection \<open>The session context\<close>

text \<open>
  C8. The group callback has no effect outside \<open>ctx.obj\<close> and always returns. It
  stores under \<open>root_path\<close> the base root joined with the simulator name, under
  \<open>sim_name\<close> the name, which is \<open>main\<close> when the option is not given, and under
  \<open>rpc_port\<close> the port override as given, \<open>None\<close> when it is absent. Every other key
  of \<open>ctx.obj\<close> keeps its value.
\<close>

theorem sim_cmd_resolves_context:
  "snd (sim_cmd_options R ctx_obj rpc_port root_path simulator_name) = ([], Returned)
   \<and> fst (sim_cmd_options R ctx_obj rpc_port root_path simulator_name) ''root_path'' =
       Some (PathV (PathJoin (Path (case root_path of None \<Rightarrow> R | Some p \<Rightarrow> p))
                             (case simulator_name of None \<Rightarrow> ''main'' | Some n \<Rightarrow> n)))
   \<and> fst (sim_cmd_options R ctx_obj rpc_port root_path simulator_name) ''sim_name'' =
       Some (StrV (case simulator_name of None \<Rightarrow> ''main'' | Some n \<Rightarrow> n))
   \<and> fst (sim_cmd_options R ctx_obj rpc_port root_path simulator_name) ''rpc_port'' =
       Some (case rpc_port of None \<Rightarrow> NoneV | Some p \<Rightarrow> IntV p)
   \<and> fst (sim_cmd_options R ctx_obj rpc_port root_path None) ''sim_name'' = Some (StrV ''main'')
   \<and> fst (sim_cmd_options R ctx_obj None root_path simulator_name) ''rpc_port'' = Some NoneV
   \<and> (k \<notin> {''root_path'', ''sim_name'', ''rpc_port''} \<longrightarrow>
        fst (sim_cmd_options R ctx_obj rpc_port root_path simulator_name) k =
          (case ctx_obj of None \<Rightarrow> None | Some c \<Rightarrow> c k))"
  by (cases root_path; cases simulator_name; cases rpc_port; cases ctx_obj)
     (simp_all add: sim_cmd_options_def sim_cmd_def)

theorem sim_cmd_resolves_context_witness:
  "snd (sim_cmd_options ''/sim'' (Some [''seed'' \<mapsto> IntV 7]) (Some 8000) None None)
     = ([], Returned)
   \<and> fst (sim_cmd_options ''/sim'' (Some [''seed'' \<mapsto> IntV 7]) (Some 8000) None None)
       ''root_path'' = Some (PathV (PathJoin (Path ''/sim'') ''main''))
   \<and> fst (sim_cmd_options ''/sim'' (Some [''seed'' \<mapsto> IntV 7]) (Some 8000) None None)
       ''rpc_port'' = Some (IntV 8000)
   \<and> ''seed'' \<notin> {''root_path'', ''sim_name'', ''rpc_port''}
   \<and> fst (sim_cmd_options ''/sim'' (Some [''seed'' \<mapsto> IntV 7]) (Some 8000) None None)
       ''seed'' = Some (IntV 7)"
  using sim_cmd_resolves_context [of "''/sim''" "Some [''seed'' \<mapsto> IntV 7]" "Some 8000"
      None None "''seed''"]
  by simp

subsection \<open>\<open>revert\<close>: the order of the two checks\<close>

text \<open>
  C9. With \<open>force\<close> set and \<open>disable_prompt\<close> not set, the prompt is the first effect
  of \<open>revert\<close>, before the check of \<open>reset\<close> against \<open>blocks\<close>: with \<open>reset\<close> set
  and \<open>blocks\<close> other than 1, an answer other than \<open>y\<close> ends the command with no
  message, and the answer \<open>y\<close> leads on to the rejection message.
\<close>

theorem revert_prompt_precedes_reset_check:
  "take (Suc 0) (fst (revert_cmd e d blocks new_blocks reset True False)) = [Input input_str]
   \<and> (input e input_str = Inr answer \<and> answer \<noteq> ''y'' \<and> blocks \<noteq> 1 \<longrightarrow>
        revert_cmd e d blocks new_blocks True True False = ([Input input_str], Returned))
   \<and> (input e input_str = Inr ''y'' \<and> blocks \<noteq> 1 \<longrightarrow>
        revert_cmd e d blocks new_blocks True True False =
          ([Input input_str, Print [Lit reset_msg, Lit ''\<newline>'']], Returned))"
proof (intro conjI impI)
  show "take (Suc 0) (fst (revert_cmd e d blocks new_blocks reset True False)) = [Input input_str]"
    by (rule revert_prompt_first)
next
  assume "input e input_str = Inr answer \<and> answer \<noteq> ''y'' \<and> blocks \<noteq> 1"
  then show "revert_cmd e d blocks new_blocks True True False = ([Input input_str], Returned)"
    by (simp add: revert_declined)
next
  assume "input e input_str = Inr ''y'' \<and> blocks \<noteq> 1"
  then show "revert_cmd e d blocks new_blocks True True False =
      ([Input input_str, Print [Lit reset_msg, Lit ''\<newline>'']], Returned)"
    by (simp add: revert_cmd_def revert_checked_rejects)
qed

theorem revert_prompt_precedes_reset_check_witness:
  "input (env_of ''n'' 0) input_str = Inr ''n'' \<and> ''n'' \<noteq> ''y'' \<and> (4::int) \<noteq> 1
   \<and> revert_cmd (env_of ''n'' 0) main_obj 4 1 True True False = ([Input input_str], Returned)
   \<and> input (env_of ''y'' 0) input_str = Inr ''y''
   \<and> revert_cmd (env_of ''y'' 0) main_obj 4 1 True True False =
       ([Input input_str, Print [Lit reset_msg, Lit ''\<newline>'']], Returned)"
  using revert_prompt_precedes_reset_check [of "env_of ''n'' 0" main_obj 4 1 True "''n''"]
    revert_prompt_precedes_reset_check [of "env_of ''y'' 0" main_obj 4 1 True "''y''"]
  by (simp add: env_of_simps)

end
